theory Spec2Isabelle
  imports Complex_Main
begin

section \<open>MeetUp friend matching service\<close>

text \<open>
  A shallow embedding of \<^verbatim>\<open>friend_matching_service.py\<close>. Conventions:
  \<^item> a Python \<^verbatim>\<open>float\<close> is a \<^typ>\<open>real\<close>: rounding, NaN and overflow of IEEE doubles are
    not part of the model; \<^verbatim>\<open>float('inf')\<close> is the value \<open>None\<close> of \<^typ>\<open>real option\<close>;
  \<^item> a raised exception is the \<open>Inl\<close> branch of a sum;
  \<^item> a class entry of a schedule (a dict with the keys \<^verbatim>\<open>course\<close>, \<^verbatim>\<open>building\<close>,
    \<^verbatim>\<open>day\<close>, \<^verbatim>\<open>start_time\<close>, \<^verbatim>\<open>end_time\<close>) is a record with these fields, all strings;
  \<^item> the two injected repositories are records of functions over a store \<open>'db\<close>; every
    call of one of their methods may change the store, may raise, and is written to a
    call log;
  \<^item> \<^verbatim>\<open>datetime.utcnow()\<close> is a parameter \<open>now\<close>;
  \<^item> the calls of the module's logger are left out.
\<close>

subsection \<open>Data model\<close>

record class_entry =
  course :: string
  building :: string
  day :: string
  start_time :: string
  end_time :: string

type_synonym point = "real \<times> real"

record schedule =
  user_id :: int
  classes :: "class_entry list"
  walking_paths :: "point list list"

record friend_suggestion =
  suggested_user_id :: int
  score :: real
  shared_classes :: "string list"
  path_overlap_percent :: real
  time_proximity_minutes :: int

datatype error =
    TimeDataError string
  | ValueError string
  | RepositoryError string

text \<open>
  \<open>TimeDataError s\<close> is the \<^verbatim>\<open>ValueError\<close> that \<^verbatim>\<open>datetime.strptime\<close> raises on the
  input \<open>s\<close>; \<open>ValueError m\<close> is a \<^verbatim>\<open>ValueError\<close> raised by the service itself with the
  message \<open>m\<close>; \<open>RepositoryError\<close> is any exception raised by a repository.
\<close>

definition MIN_PATH_OVERLAP :: real where
  "MIN_PATH_OVERLAP = 0.30"

definition TIME_PROXIMITY_THRESHOLD :: real where
  "TIME_PROXIMITY_THRESHOLD = 15"

subsection \<open>Parsing a time of day\<close>

text \<open>
  \<^verbatim>\<open>datetime.strptime(time_str, "%H:%M")\<close> matches the regular expression
  \<^verbatim>\<open>(2[0-3]|[0-1]\d|\d):([0-5]\d|\d)\<close> at the start of the string, alternatives tried in
  this order, and raises when there is no match or when text is left after it. The
  result is a time on 1900-01-01; it is kept here as the seconds since that midnight.
  Strings are ASCII.
\<close>

definition digit_of :: "char \<Rightarrow> nat option" where
  "digit_of c =
     (let n = (of_char c :: nat) in if 48 \<le> n \<and> n \<le> 57 then Some (n - 48) else None)"

fun match_hour :: "string \<Rightarrow> (nat \<times> string) option" where
  "match_hour [] = None"
| "match_hour [a] = (case digit_of a of None \<Rightarrow> None | Some x \<Rightarrow> Some (x, []))"
| "match_hour (a # b # rest) =
     (case digit_of a of
        None \<Rightarrow> None
      | Some x \<Rightarrow>
          (case digit_of b of
             None \<Rightarrow> Some (x, b # rest)
           | Some y \<Rightarrow>
               if x = 2 \<and> y \<le> 3 then Some (20 + y, rest)
               else if x \<le> 1 then Some (10 * x + y, rest)
               else Some (x, b # rest)))"

fun match_minute :: "string \<Rightarrow> (nat \<times> string) option" where
  "match_minute [] = None"
| "match_minute [a] = (case digit_of a of None \<Rightarrow> None | Some x \<Rightarrow> Some (x, []))"
| "match_minute (a # b # rest) =
     (case digit_of a of
        None \<Rightarrow> None
      | Some x \<Rightarrow>
          (case digit_of b of
             None \<Rightarrow> Some (x, b # rest)
           | Some y \<Rightarrow>
               if x \<le> 5 then Some (10 * x + y, rest)
               else Some (x, b # rest)))"

definition parse_time :: "string \<Rightarrow> error + int" where
  "parse_time time_str =
     (case match_hour time_str of
        None \<Rightarrow> Inl (TimeDataError time_str)
      | Some (h, rest) \<Rightarrow>
          (case rest of
             [] \<Rightarrow> Inl (TimeDataError time_str)
           | c # rest' \<Rightarrow>
               if c \<noteq> CHR '':'' then Inl (TimeDataError time_str)
               else
                 (case match_minute rest' of
                    None \<Rightarrow> Inl (TimeDataError time_str)
                  | Some (m, left) \<Rightarrow>
                      if left \<noteq> [] then Inl (TimeDataError time_str)
                      else Inr (int (3600 * h + 60 * m)))))"

subsection \<open>Time proximity\<close>

text \<open>\<^verbatim>\<open>min(min_diff, diff)\<close>, where \<open>None\<close> is \<^verbatim>\<open>float('inf')\<close>.\<close>

fun min_diff_with :: "real option \<Rightarrow> real \<Rightarrow> real option" where
  "min_diff_with None diff = Some diff"
| "min_diff_with (Some m) diff = Some (min m diff)"

text \<open>\<^verbatim>\<open>int(x)\<close> on a float: truncation toward zero.\<close>

definition py_int :: "real \<Rightarrow> int" where
  "py_int x = (if 0 \<le> x then \<lfloor>x\<rfloor> else \<lceil>x\<rceil>)"

text \<open>The inner loop over the candidate's classes, for one class of the user.\<close>

fun proximity_candidates ::
  "int \<Rightarrow> string \<Rightarrow> class_entry list \<Rightarrow> real option \<Rightarrow> error + real option" where
  "proximity_candidates user_end user_day [] min_diff = Inr min_diff"
| "proximity_candidates user_end user_day (candidate_class # rest) min_diff =
     (if user_day \<noteq> day candidate_class
      then proximity_candidates user_end user_day rest min_diff
      else
        (case parse_time (start_time candidate_class) of
           Inl e \<Rightarrow> Inl e
         | Inr candidate_start \<Rightarrow>
             proximity_candidates user_end user_day rest
               (min_diff_with min_diff \<bar>real_of_int (candidate_start - user_end) / 60\<bar>)))"

text \<open>The outer loop over the user's classes.\<close>

fun proximity_users ::
  "class_entry list \<Rightarrow> class_entry list \<Rightarrow> real option \<Rightarrow> error + real option" where
  "proximity_users [] candidate_classes min_diff = Inr min_diff"
| "proximity_users (user_class # rest) candidate_classes min_diff =
     (case parse_time (end_time user_class) of
        Inl e \<Rightarrow> Inl e
      | Inr user_end \<Rightarrow>
          (case proximity_candidates user_end (day user_class) candidate_classes min_diff of
             Inl e \<Rightarrow> Inl e
           | Inr min_diff' \<Rightarrow> proximity_users rest candidate_classes min_diff'))"

definition calculate_time_proximity ::
  "class_entry list \<Rightarrow> class_entry list \<Rightarrow> error + int" where
  "calculate_time_proximity user_classes candidate_classes =
     (case proximity_users user_classes candidate_classes None of
        Inl e \<Rightarrow> Inl e
      | Inr None \<Rightarrow> Inr (- 1)
      | Inr (Some min_diff) \<Rightarrow>
          Inr (if min_diff \<le> TIME_PROXIMITY_THRESHOLD then py_int min_diff else - 1))"

subsection \<open>Path overlap\<close>

definition PROXIMITY_THRESHOLD :: real where
  "PROXIMITY_THRESHOLD = 0.0005"

definition distance :: "point \<Rightarrow> point \<Rightarrow> real" where
  "distance point1 point2 = sqrt ((fst point1 - fst point2)\<^sup>2 + (snd point1 - snd point2)\<^sup>2)"

text \<open>The inner loop with its \<^verbatim>\<open>break\<close>: is some point of \<open>path2\<close> close to \<open>point1\<close>?\<close>

fun point_covered :: "point \<Rightarrow> point list \<Rightarrow> bool" where
  "point_covered point1 [] = False"
| "point_covered point1 (point2 # rest) =
     (if distance point1 point2 < PROXIMITY_THRESHOLD then True
      else point_covered point1 rest)"

fun count_overlap_points :: "point list \<Rightarrow> point list \<Rightarrow> nat \<Rightarrow> nat" where
  "count_overlap_points [] path2 overlap_points = overlap_points"
| "count_overlap_points (point1 # rest) path2 overlap_points =
     count_overlap_points rest path2
       (if point_covered point1 path2 then overlap_points + 1 else overlap_points)"

definition calculate_single_path_overlap :: "point list \<Rightarrow> point list \<Rightarrow> real" where
  "calculate_single_path_overlap path1 path2 =
     (if path1 = [] \<or> path2 = [] then 0
      else real (count_overlap_points path1 path2 0) / real (length path1))"

text \<open>The two nested loops, carrying \<^verbatim>\<open>total_overlap\<close> and \<^verbatim>\<open>comparisons\<close>.\<close>

fun overlap_candidates :: "point list \<Rightarrow> point list list \<Rightarrow> real \<times> nat \<Rightarrow> real \<times> nat" where
  "overlap_candidates user_path [] acc = acc"
| "overlap_candidates user_path (candidate_path # rest) (total_overlap, comparisons) =
     overlap_candidates user_path rest
       (total_overlap + calculate_single_path_overlap user_path candidate_path,
        comparisons + 1)"

fun overlap_users :: "point list list \<Rightarrow> point list list \<Rightarrow> real \<times> nat \<Rightarrow> real \<times> nat" where
  "overlap_users [] candidate_paths acc = acc"
| "overlap_users (user_path # rest) candidate_paths acc =
     overlap_users rest candidate_paths (overlap_candidates user_path candidate_paths acc)"

definition calculate_path_overlap :: "point list list \<Rightarrow> point list list \<Rightarrow> real" where
  "calculate_path_overlap user_paths candidate_paths =
     (if user_paths = [] \<or> candidate_paths = [] then 0
      else
        (case overlap_users user_paths candidate_paths (0, 0) of
           (total_overlap, comparisons) \<Rightarrow>
             if comparisons > 0 then total_overlap / real comparisons else 0))"

subsection \<open>Pairwise evaluation\<close>

text \<open>
  \<^verbatim>\<open>list(user_classes & candidate_classes)\<close>: the course codes of both schedules, each
  once. Python leaves the order of the list to its hash table; here it is the order of
  first occurrence in the user's schedule.
\<close>

definition shared_courses :: "class_entry list \<Rightarrow> class_entry list \<Rightarrow> string list" where
  "shared_courses user_classes candidate_classes =
     remdups (filter (\<lambda>c. c \<in> set (map course candidate_classes)) (map course user_classes))"

definition match_score :: "nat \<Rightarrow> real \<Rightarrow> int \<Rightarrow> real" where
  "match_score n_shared path_overlap time_proximity =
     real n_shared * 0.4 + path_overlap * 0.4 + (if time_proximity > 0 then 1.0 else 0) * 0.2"

definition evaluate_match :: "schedule \<Rightarrow> schedule \<Rightarrow> error + friend_suggestion option" where
  "evaluate_match user_schedule candidate_schedule =
     (let shared = shared_courses (classes user_schedule) (classes candidate_schedule) in
      case calculate_time_proximity (classes user_schedule) (classes candidate_schedule) of
        Inl e \<Rightarrow> Inl e
      | Inr time_proximity \<Rightarrow>
          (let path_overlap =
                 calculate_path_overlap (walking_paths user_schedule)
                   (walking_paths candidate_schedule);
               sc = match_score (length shared) path_overlap time_proximity
           in if sc < 0.3 then Inr None
              else if length shared = 0 \<and> path_overlap < MIN_PATH_OVERLAP then Inr None
              else Inr (Some \<lparr>suggested_user_id = user_id candidate_schedule,
                               score = sc,
                               shared_classes = shared,
                               path_overlap_percent = path_overlap * 100,
                               time_proximity_minutes = time_proximity\<rparr>)))"

subsection \<open>Repositories\<close>

text \<open>
  The service is handed two repositories and calls them by method name. Each method
  takes the store and gives back its result, or the exception it raised, with the store
  it leaves behind. \<open>'c\<close> is whatever the connection repository uses for a connection;
  a connection that \<^verbatim>\<open>get_connection_between\<close> finds is taken to be truthy.
\<close>

record connection_link =
  other_user_id :: int

record block_entry =
  blocked_user_id :: int

record 'db schedule_repository =
  get_schedule_by_user :: "int \<Rightarrow> 'db \<Rightarrow> (error + schedule option) \<times> 'db"
  get_schedules_by_university :: "int \<Rightarrow> int list \<Rightarrow> 'db \<Rightarrow> (error + schedule list) \<times> 'db"

record ('db, 'c) connection_repository =
  get_connections :: "int \<Rightarrow> 'db \<Rightarrow> (error + connection_link list) \<times> 'db"
  get_blocked_users :: "int \<Rightarrow> 'db \<Rightarrow> (error + block_entry list) \<times> 'db"
  get_connection_between :: "int \<Rightarrow> int \<Rightarrow> 'db \<Rightarrow> (error + 'c option) \<times> 'db"
  is_blocked :: "int \<Rightarrow> int \<Rightarrow> 'db \<Rightarrow> (error + bool) \<times> 'db"
  create_connection :: "int \<Rightarrow> int \<Rightarrow> string \<Rightarrow> nat \<Rightarrow> 'db \<Rightarrow> (error + 'c) \<times> 'db"

datatype call =
    GetScheduleByUser int
  | GetSchedulesByUniversity int "int list"
  | GetConnections int
  | GetBlockedUsers int
  | GetConnectionBetween int int
  | IsBlocked int int
  | CreateConnection int int string nat

record 'db world =
  store :: 'db
  calls :: "call list"

definition invoke :: "call \<Rightarrow> ('db \<Rightarrow> 'a \<times> 'db) \<Rightarrow> 'db world \<Rightarrow> 'a \<times> 'db world" where
  "invoke c m w = (case m (store w) of (r, db) \<Rightarrow> (r, \<lparr>store = db, calls = calls w @ [c]\<rparr>))"

subsection \<open>Suggestion generation\<close>

text \<open>The loop over the candidates; an exception of \<open>evaluate_match\<close> ends it.\<close>

fun collect_suggestions ::
  "schedule \<Rightarrow> schedule list \<Rightarrow> friend_suggestion list \<Rightarrow> error + friend_suggestion list" where
  "collect_suggestions user_schedule [] suggestions = Inr suggestions"
| "collect_suggestions user_schedule (candidate_schedule # rest) suggestions =
     (case evaluate_match user_schedule candidate_schedule of
        Inl e \<Rightarrow> Inl e
      | Inr None \<Rightarrow> collect_suggestions user_schedule rest suggestions
      | Inr (Some suggestion) \<Rightarrow>
          if score suggestion > 0
          then collect_suggestions user_schedule rest (suggestions @ [suggestion])
          else collect_suggestions user_schedule rest suggestions)"

text \<open>
  \<^verbatim>\<open>suggestions.sort(key=lambda x: x.score, reverse=True)\<close>: a stable sort, descending;
  with \<^verbatim>\<open>reverse=True\<close> equal keys keep their order, which is a stable ascending sort of
  the reversed list, reversed.
\<close>

definition sort_by_score_desc :: "friend_suggestion list \<Rightarrow> friend_suggestion list" where
  "sort_by_score_desc suggestions = rev (sort_key score (rev suggestions))"

text \<open>\<^verbatim>\<open>xs[:limit]\<close>; a negative limit counts from the end.\<close>

definition slice_to :: "'a list \<Rightarrow> int \<Rightarrow> 'a list" where
  "slice_to xs limit =
     (if 0 \<le> limit then take (nat limit) xs else take (length xs - nat (- limit)) xs)"

text \<open>
  \<^verbatim>\<open>list(existing_ids | blocked_ids | {user_id})\<close>: the ids of the three sets, each once;
  the order is again the hash table's in Python.
\<close>

definition exclude_user_ids ::
  "connection_link list \<Rightarrow> block_entry list \<Rightarrow> int \<Rightarrow> int list" where
  "exclude_user_ids existing_connections blocked_users uid =
     remdups (map other_user_id existing_connections @ map blocked_user_id blocked_users @ [uid])"

definition generate_suggestions ::
  "'db schedule_repository \<Rightarrow> ('db, 'c) connection_repository \<Rightarrow> int \<Rightarrow> int \<Rightarrow> 'db world
     \<Rightarrow> (error + friend_suggestion list) \<times> 'db world" where
  "generate_suggestions schedule_repo connection_repo uid limit w =
     (case invoke (GetScheduleByUser uid) (get_schedule_by_user schedule_repo uid) w of
        (Inl e, w1) \<Rightarrow> (Inl e, w1)
      | (Inr None, w1) \<Rightarrow> (Inr [], w1)
      | (Inr (Some user_schedule), w1) \<Rightarrow>
     (case invoke (GetConnections uid) (get_connections connection_repo uid) w1 of
        (Inl e, w2) \<Rightarrow> (Inl e, w2)
      | (Inr existing_connections, w2) \<Rightarrow>
     (case invoke (GetBlockedUsers uid) (get_blocked_users connection_repo uid) w2 of
        (Inl e, w3) \<Rightarrow> (Inl e, w3)
      | (Inr blocked_users, w3) \<Rightarrow>
     (let excl = exclude_user_ids existing_connections blocked_users uid in
      case invoke (GetSchedulesByUniversity (user_id user_schedule) excl)
             (get_schedules_by_university schedule_repo (user_id user_schedule) excl) w3 of
        (Inl e, w4) \<Rightarrow> (Inl e, w4)
      | (Inr candidate_schedules, w4) \<Rightarrow>
          (case collect_suggestions user_schedule candidate_schedules [] of
             Inl e \<Rightarrow> (Inl e, w4)
           | Inr suggestions \<Rightarrow> (Inr (slice_to (sort_by_score_desc suggestions) limit), w4))))))"

subsection \<open>Connection lifecycle\<close>

text \<open>\<^verbatim>\<open>_is_blocked\<close>: the second direction is asked only when the first says no.\<close>

definition is_blocked_either ::
  "('db, 'c) connection_repository \<Rightarrow> int \<Rightarrow> int \<Rightarrow> 'db world \<Rightarrow> (error + bool) \<times> 'db world" where
  "is_blocked_either connection_repo user1_id user2_id w =
     (case invoke (IsBlocked user1_id user2_id) (is_blocked connection_repo user1_id user2_id) w of
        (Inl e, w1) \<Rightarrow> (Inl e, w1)
      | (Inr True, w1) \<Rightarrow> (Inr True, w1)
      | (Inr False, w1) \<Rightarrow>
          invoke (IsBlocked user2_id user1_id) (is_blocked connection_repo user2_id user1_id) w1)"

definition create_connection_request ::
  "('db, 'c) connection_repository \<Rightarrow> nat \<Rightarrow> int \<Rightarrow> int \<Rightarrow> 'db world
     \<Rightarrow> (error + 'c) \<times> 'db world" where
  "create_connection_request connection_repo now requesting_user_id target_user_id w =
     (case invoke (GetConnectionBetween requesting_user_id target_user_id)
             (get_connection_between connection_repo requesting_user_id target_user_id) w of
        (Inl e, w1) \<Rightarrow> (Inl e, w1)
      | (Inr (Some existing), w1) \<Rightarrow>
          (Inl (ValueError ''Connection already exists or is pending''), w1)
      | (Inr None, w1) \<Rightarrow>
          (case is_blocked_either connection_repo requesting_user_id target_user_id w1 of
             (Inl e, w2) \<Rightarrow> (Inl e, w2)
           | (Inr True, w2) \<Rightarrow> (Inl (ValueError ''Cannot connect with blocked user''), w2)
           | (Inr False, w2) \<Rightarrow>
               invoke (CreateConnection requesting_user_id target_user_id ''pending'' now)
                 (create_connection connection_repo requesting_user_id target_user_id
                    ''pending'' now) w2))"

record accepted_connection =
  conn_id :: int
  status :: string
  connected_at :: nat

definition accept_connection ::
  "int \<Rightarrow> int \<Rightarrow> nat \<Rightarrow> 'db world \<Rightarrow> (error + accepted_connection) \<times> 'db world" where
  "accept_connection connection_id accepting_user_id now w =
     (Inr \<lparr>conn_id = connection_id, status = ''accepted'', connected_at = now\<rparr>, w)"

subsection \<open>The specification's time proximity\<close>

text \<open>
  The specification speaks of schedules whose times are wall-clock times \<^verbatim>\<open>HH:MM\<close>, and of
  the minimum, over the pairs of one class of each schedule on the same day, of the
  absolute difference in minutes between the candidate's start and the user's end.
\<close>

definition valid_time :: "string \<Rightarrow> bool" where
  "valid_time s = (case parse_time s of Inl _ \<Rightarrow> False | Inr _ \<Rightarrow> True)"

definition seconds_of :: "string \<Rightarrow> int" where
  "seconds_of s = (case parse_time s of Inl _ \<Rightarrow> 0 | Inr t \<Rightarrow> t)"

definition well_formed_classes :: "class_entry list \<Rightarrow> bool" where
  "well_formed_classes cs =
     list_all (\<lambda>c. valid_time (start_time c) \<and> valid_time (end_time c)) cs"

definition gap_minutes :: "class_entry \<Rightarrow> class_entry \<Rightarrow> real" where
  "gap_minutes user_class candidate_class =
     \<bar>real_of_int (seconds_of (start_time candidate_class) - seconds_of (end_time user_class)) / 60\<bar>"

definition same_day_gaps :: "class_entry list \<Rightarrow> class_entry list \<Rightarrow> real list" where
  "same_day_gaps user_classes candidate_classes =
     concat (map (\<lambda>u. map (gap_minutes u) (filter (\<lambda>c. day u = day c) candidate_classes))
               user_classes)"

definition spec_time_proximity :: "class_entry list \<Rightarrow> class_entry list \<Rightarrow> int" where
  "spec_time_proximity user_classes candidate_classes =
     (let gaps = same_day_gaps user_classes candidate_classes in
      if gaps = [] \<or> Min (set gaps) > 15 then - 1 else py_int (Min (set gaps)))"

text \<open>The number of course codes that both schedules have.\<close>

definition shared_count :: "schedule \<Rightarrow> schedule \<Rightarrow> nat" where
  "shared_count user_schedule candidate_schedule =
     card (course ` set (classes user_schedule) \<inter> course ` set (classes candidate_schedule))"

text \<open>The specification's composite score.\<close>

definition spec_composite_score :: "nat \<Rightarrow> real \<Rightarrow> int \<Rightarrow> real" where
  "spec_composite_score n_shared path_overlap time_proximity =
     0.4 * real n_shared + 0.4 * path_overlap + 0.2 * (if time_proximity > 0 then 1.0 else 0.0)"

subsection \<open>Sample data and in-memory repositories\<close>

text \<open>The three schedules of \<^verbatim>\<open>demo_run.py\<close>.\<close>

definition demo_alice :: schedule where
  "demo_alice =
     \<lparr>user_id = 1,
      classes =
        [\<lparr>course = ''CS101'', building = ''Science Hall'', day = ''Monday'',
           start_time = ''09:00'', end_time = ''10:15''\<rparr>,
         \<lparr>course = ''MATH201'', building = ''Math Building'', day = ''Monday'',
           start_time = ''11:00'', end_time = ''12:15''\<rparr>],
      walking_paths = [[(40.7128, - 74.0060), (40.7129, - 74.0061), (40.7130, - 74.0062)]]\<rparr>"

definition demo_bob :: schedule where
  "demo_bob =
     \<lparr>user_id = 2,
      classes =
        [\<lparr>course = ''CS101'', building = ''Science Hall'', day = ''Monday'',
           start_time = ''09:00'', end_time = ''10:15''\<rparr>,
         \<lparr>course = ''ENG202'', building = ''English Hall'', day = ''Monday'',
           start_time = ''10:30'', end_time = ''11:45''\<rparr>],
      walking_paths = [[(40.7128, - 74.0060), (40.7129, - 74.0061)]]\<rparr>"

definition demo_charlie :: schedule where
  "demo_charlie =
     \<lparr>user_id = 3,
      classes =
        [\<lparr>course = ''PHYS101'', building = ''Physics Building'', day = ''Tuesday'',
           start_time = ''14:00'', end_time = ''15:15''\<rparr>],
      walking_paths = [[(41.8781, - 87.6298)]]\<rparr>"

text \<open>
  Further schedules: one class each, with the course, the day and the times given, and
  one path or none.
\<close>

definition single_class :: "int \<Rightarrow> string \<Rightarrow> string \<Rightarrow> string \<Rightarrow> string \<Rightarrow> point list list \<Rightarrow> schedule" where
  "single_class uid crs d s e paths =
     \<lparr>user_id = uid,
      classes = [\<lparr>course = crs, building = ''Hall'', day = d, start_time = s, end_time = e\<rparr>],
      walking_paths = paths\<rparr>"

definition three_classes :: "int \<Rightarrow> schedule" where
  "three_classes uid =
     \<lparr>user_id = uid,
      classes =
        [\<lparr>course = ''CS101'', building = ''Hall'', day = ''Monday'',
           start_time = ''09:00'', end_time = ''10:00''\<rparr>,
         \<lparr>course = ''MATH201'', building = ''Hall'', day = ''Tuesday'',
           start_time = ''09:00'', end_time = ''10:00''\<rparr>,
         \<lparr>course = ''ENG202'', building = ''Hall'', day = ''Wednesday'',
           start_time = ''09:00'', end_time = ''10:00''\<rparr>],
      walking_paths = []\<rparr>"

text \<open>A path of ten points of which three are at the origin.\<close>

definition ten_point_path :: "point list" where
  "ten_point_path = replicate 3 (0, 0) @ replicate 7 (1, 1)"

text \<open>
  Repositories over an in-memory store, in the manner of the mocks of \<^verbatim>\<open>demo_run.py\<close>,
  but keeping what \<^verbatim>\<open>create_connection\<close> is given and answering from what is kept. A
  block is a pair (blocker, blocked).
\<close>

record stored_connection =
  sc_id :: int
  user1_id :: int
  user2_id :: int
  sc_status :: string
  suggested_at :: nat

record mem_db =
  db_schedules :: "schedule list"
  db_connections :: "stored_connection list"
  db_blocks :: "(int \<times> int) list"

definition mem_schedule_repo :: "mem_db schedule_repository" where
  "mem_schedule_repo =
     \<lparr>get_schedule_by_user =
        (\<lambda>uid db. (Inr (find (\<lambda>s. user_id s = uid) (db_schedules db)), db)),
      get_schedules_by_university =
        (\<lambda>key excl db. (Inr (filter (\<lambda>s. user_id s \<notin> set excl) (db_schedules db)), db))\<rparr>"

definition links_stored :: "stored_connection \<Rightarrow> int \<Rightarrow> int \<Rightarrow> bool" where
  "links_stored c a b =
     ((user1_id c = a \<and> user2_id c = b) \<or> (user1_id c = b \<and> user2_id c = a))"

definition mem_connection_repo :: "(mem_db, stored_connection) connection_repository" where
  "mem_connection_repo =
     \<lparr>get_connections =
        (\<lambda>uid db.
           (Inr (map (\<lambda>c. \<lparr>other_user_id = (if user1_id c = uid then user2_id c else user1_id c)\<rparr>)
                   (filter (\<lambda>c. user1_id c = uid \<or> user2_id c = uid) (db_connections db))),
            db)),
      get_blocked_users =
        (\<lambda>uid db.
           (Inr (map (\<lambda>p. \<lparr>blocked_user_id = snd p\<rparr>) (filter (\<lambda>p. fst p = uid) (db_blocks db))),
            db)),
      get_connection_between =
        (\<lambda>a b db. (Inr (find (\<lambda>c. links_stored c a b) (db_connections db)), db)),
      is_blocked = (\<lambda>a b db. (Inr ((a, b) \<in> set (db_blocks db)), db)),
      create_connection =
        (\<lambda>a b st t db.
           (let c = \<lparr>sc_id = int (length (db_connections db)) + 1, user1_id = a, user2_id = b,
                     sc_status = st, suggested_at = t\<rparr>
            in (Inr c, db\<lparr>db_connections := db_connections db @ [c]\<rparr>)))\<rparr>"

definition demo_db :: mem_db where
  "demo_db = \<lparr>db_schedules = [demo_alice, demo_bob, demo_charlie],
              db_connections = [], db_blocks = []\<rparr>"

text \<open>The connection with this id, as the store holds it.\<close>

definition stored_by_id :: "mem_db \<Rightarrow> int \<Rightarrow> stored_connection option" where
  "stored_by_id db i = find (\<lambda>c. sc_id c = i) (db_connections db)"

text \<open>
  Three worlds over this store: the demo's; the one in which user 1 has sent a request to
  user 2 at time 100; and one in which user 1 has blocked user 2.
\<close>

definition demo_world :: "mem_db world" where
  "demo_world = \<lparr>store = demo_db, calls = []\<rparr>"

definition pending_world :: "mem_db world" where
  "pending_world = snd (create_connection_request mem_connection_repo 100 1 2 demo_world)"

definition blocked_world :: "mem_db world" where
  "blocked_world = \<lparr>store = demo_db\<lparr>db_blocks := [(1, 2)]\<rparr>, calls = []\<rparr>"

section \<open>Properties\<close>

subsection \<open>Time proximity\<close>

lemma parse_time_valid: "valid_time s \<Longrightarrow> parse_time s = Inr (seconds_of s)"
  by (simp add: valid_time_def seconds_of_def split: sum.splits)

lemma proximity_candidates_fold:
  "\<forall>c\<in>set ccs. valid_time (start_time c) \<Longrightarrow> parse_time (end_time u) = Inr ue \<Longrightarrow>
   proximity_candidates ue (day u) ccs m =
     Inr (foldl min_diff_with m (map (gap_minutes u) (filter (\<lambda>c. day u = day c) ccs)))"
proof (induction ccs arbitrary: m)
  case Nil
  then show ?case by simp
next
  case (Cons c ccs)
  have ue: "seconds_of (end_time u) = ue"
    using Cons.prems(2) by (simp add: seconds_of_def)
  have rest: "proximity_candidates ue (day u) ccs m' =
     Inr (foldl min_diff_with m' (map (gap_minutes u) (filter (\<lambda>c. day u = day c) ccs)))" for m'
    using Cons.IH Cons.prems by simp
  show ?case
  proof (cases "day u = day c")
    case True
    have "parse_time (start_time c) = Inr (seconds_of (start_time c))"
      using Cons.prems(1) by (simp add: parse_time_valid)
    moreover have "\<bar>real_of_int (seconds_of (start_time c) - ue) / 60\<bar> = gap_minutes u c"
      by (simp add: gap_minutes_def ue)
    ultimately show ?thesis using True [symmetric] by (simp add: rest)
  next
    case False
    then show ?thesis by (simp add: rest)
  qed
qed

lemma proximity_users_fold:
  "\<forall>u\<in>set ucs. valid_time (end_time u) \<Longrightarrow> \<forall>c\<in>set ccs. valid_time (start_time c) \<Longrightarrow>
   proximity_users ucs ccs m = Inr (foldl min_diff_with m (same_day_gaps ucs ccs))"
proof (induction ucs arbitrary: m)
  case Nil
  then show ?case by (simp add: same_day_gaps_def)
next
  case (Cons u ucs)
  have pu: "parse_time (end_time u) = Inr (seconds_of (end_time u))"
    using Cons.prems(1) by (simp add: parse_time_valid)
  have inner: "proximity_candidates (seconds_of (end_time u)) (day u) ccs m =
     Inr (foldl min_diff_with m (map (gap_minutes u) (filter (\<lambda>c. day u = day c) ccs)))"
    using proximity_candidates_fold [OF Cons.prems(2) pu] .
  have rest: "proximity_users ucs ccs m' = Inr (foldl min_diff_with m' (same_day_gaps ucs ccs))" for m'
    using Cons.IH Cons.prems by simp
  show ?case
    by (simp add: pu inner rest same_day_gaps_def)
qed

lemma foldl_min_Some: "foldl min_diff_with (Some a) xs = Some (Min (insert a (set xs)))"
proof (induction xs arbitrary: a)
  case Nil
  then show ?case by simp
next
  case (Cons x xs)
  have "Min (insert (min a x) (set xs)) = Min (insert a (insert x (set xs)))"
    by (cases "set xs = {}") (simp_all add: min.assoc)
  then show ?case using Cons.IH by simp
qed

lemma foldl_min_None:
  "foldl min_diff_with None xs = (if xs = [] then None else Some (Min (set xs)))"
  by (cases xs) (simp_all add: foldl_min_Some)

lemma py_int_nonneg: "0 \<le> x \<Longrightarrow> 0 \<le> py_int x"
  by (simp add: py_int_def)

lemma gaps_nonneg: "x \<in> set (same_day_gaps ucs ccs) \<Longrightarrow> 0 \<le> x"
  by (auto simp: same_day_gaps_def gap_minutes_def)

lemma calculate_time_proximity_spec:
  assumes "well_formed_classes ucs" "well_formed_classes ccs"
  shows "calculate_time_proximity ucs ccs = Inr (spec_time_proximity ucs ccs)"
proof -
  have u: "\<forall>u\<in>set ucs. valid_time (end_time u)" and c: "\<forall>c\<in>set ccs. valid_time (start_time c)"
    using assms by (simp_all add: well_formed_classes_def list_all_iff)
  show ?thesis
    by (simp add: calculate_time_proximity_def proximity_users_fold [OF u c] foldl_min_None
        spec_time_proximity_def TIME_PROXIMITY_THRESHOLD_def Let_def not_less
        del: Min_gr_iff)
qed

lemma spec_sentinel:
  "spec_time_proximity ucs ccs = - 1 \<longleftrightarrow>
     same_day_gaps ucs ccs = [] \<or> Min (set (same_day_gaps ucs ccs)) > 15"
proof (cases "same_day_gaps ucs ccs = [] \<or> Min (set (same_day_gaps ucs ccs)) > 15")
  case True
  then show ?thesis
    unfolding spec_time_proximity_def Let_def by (simp only: if_True simp_thms)
next
  case False
  then have ne: "same_day_gaps ucs ccs \<noteq> []" by blast
  have "Min (set (same_day_gaps ucs ccs)) \<in> set (same_day_gaps ucs ccs)"
    using ne by (intro Min_in) simp_all
  then have "0 \<le> py_int (Min (set (same_day_gaps ucs ccs)))"
    using gaps_nonneg py_int_nonneg by blast
  moreover have "spec_time_proximity ucs ccs = py_int (Min (set (same_day_gaps ucs ccs)))"
    using False unfolding spec_time_proximity_def Let_def by (simp only: if_False)
  ultimately show ?thesis using False by linarith
qed

lemmas parse_eval = parse_time_def digit_of_def valid_time_def seconds_of_def

lemma demo_well_formed:
  "well_formed_classes (classes demo_alice)" "well_formed_classes (classes demo_bob)"
  "well_formed_classes (classes demo_charlie)"
  by (simp_all add: demo_alice_def demo_bob_def demo_charlie_def well_formed_classes_def parse_eval)

lemma demo_gaps: "same_day_gaps (classes demo_alice) (classes demo_bob) = [75, 15, 195, 105]"
  by (simp add: demo_alice_def demo_bob_def same_day_gaps_def gap_minutes_def parse_eval)

lemma demo_tp: "calculate_time_proximity (classes demo_alice) (classes demo_bob) = Inr 15"
  by (simp add: demo_alice_def demo_bob_def calculate_time_proximity_def parse_time_def digit_of_def
      TIME_PROXIMITY_THRESHOLD_def py_int_def)


text \<open>
  C3. For schedules whose times are well-formed, the time proximity is the minimum over
  the same-day pairs of the gap in minutes between the candidate's start and the user's
  end, truncated to an integer; it is the sentinel \<open>-1\<close> exactly when there is no such
  pair or the minimum is above 15, so a minimum of exactly 15 is kept.
\<close>

theorem calculate_time_proximity_min_gap:
  assumes "well_formed_classes user_classes" and "well_formed_classes candidate_classes"
  shows "calculate_time_proximity user_classes candidate_classes =
           Inr (spec_time_proximity user_classes candidate_classes)
         \<and> (calculate_time_proximity user_classes candidate_classes = Inr (- 1) \<longleftrightarrow>
              same_day_gaps user_classes candidate_classes = []
              \<or> 15 < Min (set (same_day_gaps user_classes candidate_classes)))"
  using calculate_time_proximity_spec [OF assms] spec_sentinel [of user_classes candidate_classes]
  by simp

theorem calculate_time_proximity_min_gap_witness:
  "well_formed_classes (classes demo_alice) \<and> well_formed_classes (classes demo_bob)
   \<and> well_formed_classes (classes demo_charlie)
   \<and> Min (set (same_day_gaps (classes demo_alice) (classes demo_bob))) = 15
   \<and> calculate_time_proximity (classes demo_alice) (classes demo_bob) = Inr 15
   \<and> same_day_gaps (classes demo_alice) (classes demo_charlie) = []
   \<and> calculate_time_proximity (classes demo_alice) (classes demo_charlie) = Inr (- 1)
   \<and> Min (set (same_day_gaps (classes demo_bob) (classes demo_alice))) = 45
   \<and> calculate_time_proximity (classes demo_bob) (classes demo_alice) = Inr (- 1)"
proof -
  have ab: "same_day_gaps (classes demo_alice) (classes demo_bob) = [75, 15, 195, 105]"
    by (simp add: demo_alice_def demo_bob_def same_day_gaps_def gap_minutes_def parse_eval)
  have ac: "same_day_gaps (classes demo_alice) (classes demo_charlie) = []"
    by (simp add: demo_alice_def demo_charlie_def same_day_gaps_def)
  have ba: "same_day_gaps (classes demo_bob) (classes demo_alice) = [75, 45, 165, 45]"
    by (simp add: demo_alice_def demo_bob_def same_day_gaps_def gap_minutes_def parse_eval)
  show ?thesis
    using calculate_time_proximity_min_gap [OF demo_well_formed(1) demo_well_formed(2)]
      calculate_time_proximity_min_gap [OF demo_well_formed(1) demo_well_formed(3)]
      calculate_time_proximity_min_gap [OF demo_well_formed(2) demo_well_formed(1)]
      demo_well_formed
    by (simp add: ab ac ba spec_time_proximity_def py_int_def)
qed

text \<open>
  C9. Time proximity is not symmetric: a class of the user that ends ten minutes before
  a class of the candidate starts gives 10, and with the roles swapped the sentinel.
\<close>

theorem calculate_time_proximity_not_symmetric:
  "\<exists>a b m n. calculate_time_proximity a b = Inr m \<and> calculate_time_proximity b a = Inr n \<and> m \<noteq> n"
proof -
  let ?a = "[\<lparr>course = ''CS101'', building = ''Science Hall'', day = ''Monday'',
               start_time = ''09:00'', end_time = ''10:00''\<rparr>]"
  let ?b = "[\<lparr>course = ''ENG202'', building = ''English Hall'', day = ''Monday'',
               start_time = ''10:10'', end_time = ''11:00''\<rparr>]"
  have "calculate_time_proximity ?a ?b = Inr 10"
    by (simp add: calculate_time_proximity_def parse_time_def digit_of_def
        TIME_PROXIMITY_THRESHOLD_def py_int_def)
  moreover have "calculate_time_proximity ?b ?a = Inr (- 1)"
    by (simp add: calculate_time_proximity_def parse_time_def digit_of_def
        TIME_PROXIMITY_THRESHOLD_def py_int_def)
  ultimately show ?thesis by (intro exI [of _ ?a] exI [of _ ?b] exI [of _ 10] exI [of _ "- 1"]) simp
qed

subsection \<open>Path overlap and pairwise evaluation\<close>

lemma count_overlap_points_eq:
  "count_overlap_points path1 path2 n = n + length (filter (\<lambda>p. point_covered p path2) path1)"
  by (induction path1 arbitrary: n) simp_all

lemma count_overlap_points_le: "count_overlap_points path1 path2 0 \<le> length path1"
  by (simp add: count_overlap_points_eq)

lemma single_overlap_range:
  "0 \<le> calculate_single_path_overlap path1 path2 \<and> calculate_single_path_overlap path1 path2 \<le> 1"
proof (cases "path1 = [] \<or> path2 = []")
  case True
  then show ?thesis by (simp add: calculate_single_path_overlap_def)
next
  case False
  then have "0 < length path1" by simp
  moreover have "real (count_overlap_points path1 path2 0) \<le> real (length path1)"
    using count_overlap_points_le by simp
  ultimately show ?thesis using False
    by (simp add: calculate_single_path_overlap_def divide_le_eq_1)
qed

lemma overlap_candidates_count:
  "snd (overlap_candidates p cps (t, n)) = n + length cps"
  by (induction cps arbitrary: t n) simp_all

lemma overlap_users_count:
  "snd (overlap_users ups cps (t, n)) = n + length ups * length cps"
proof (induction ups arbitrary: t n)
  case Nil
  then show ?case by simp
next
  case (Cons up ups)
  obtain t1 n1 where s: "overlap_candidates up cps (t, n) = (t1, n1)"
    by (cases "overlap_candidates up cps (t, n)")
  then have "n1 = n + length cps"
    using overlap_candidates_count [of up cps t n] by simp
  then show ?case using Cons.IH [of t1 n1] s by simp
qed

lemma overlap_candidates_bound:
  assumes "0 \<le> t" "t \<le> real n"
  shows "0 \<le> fst (overlap_candidates p cps (t, n)) \<and>
         fst (overlap_candidates p cps (t, n)) \<le> real (snd (overlap_candidates p cps (t, n)))"
  using assms
proof (induction cps arbitrary: t n)
  case Nil
  then show ?case by simp
next
  case (Cons cp cps)
  let ?o = "calculate_single_path_overlap p cp"
  have r: "0 \<le> ?o" "?o \<le> 1" using single_overlap_range by simp_all
  have "0 \<le> t + ?o" "t + ?o \<le> real (n + 1)" using r Cons.prems by simp_all
  then show ?case using Cons.IH [of "t + ?o" "n + 1"] by simp
qed

lemma overlap_users_bound:
  assumes "0 \<le> t" "t \<le> real n"
  shows "0 \<le> fst (overlap_users ups cps (t, n)) \<and>
         fst (overlap_users ups cps (t, n)) \<le> real (snd (overlap_users ups cps (t, n)))"
  using assms
proof (induction ups arbitrary: t n)
  case Nil
  then show ?case by simp
next
  case (Cons up ups)
  obtain t1 n1 where s: "overlap_candidates up cps (t, n) = (t1, n1)"
    by (cases "overlap_candidates up cps (t, n)")
  have "0 \<le> t1 \<and> t1 \<le> real n1"
    using overlap_candidates_bound [OF Cons.prems, of up cps] s by simp
  then show ?case using Cons.IH [of t1 n1] s by simp
qed

lemma path_overlap_range:
  "0 \<le> calculate_path_overlap ups cps \<and> calculate_path_overlap ups cps \<le> 1"
proof (cases "ups = [] \<or> cps = []")
  case True
  then show ?thesis by (simp add: calculate_path_overlap_def)
next
  case False
  obtain t n where s: "overlap_users ups cps (0, 0) = (t, n)"
    by (cases "overlap_users ups cps (0, 0)")
  have b: "0 \<le> t \<and> t \<le> real n"
    using overlap_users_bound [of 0 0 ups cps] s by simp
  have "n = length ups * length cps"
    using overlap_users_count [of ups cps 0 0] s by simp
  then have pos: "0 < n" using False by simp
  have "0 \<le> t / real n \<and> t / real n \<le> 1"
    using b pos by simp
  then show ?thesis using False s pos
    by (simp add: calculate_path_overlap_def)
qed

lemma path_overlap_empty:
  "ups = [] \<or> cps = [] \<Longrightarrow> calculate_path_overlap ups cps = 0"
  by (simp add: calculate_path_overlap_def)

lemma distance_near_iff:
  "distance p q < PROXIMITY_THRESHOLD \<longleftrightarrow>
     (fst p - fst q)\<^sup>2 + (snd p - snd q)\<^sup>2 < PROXIMITY_THRESHOLD\<^sup>2"
proof -
  have pos: "0 < PROXIMITY_THRESHOLD" by (simp add: PROXIMITY_THRESHOLD_def)
  have "sqrt (PROXIMITY_THRESHOLD\<^sup>2) = PROXIMITY_THRESHOLD"
    using pos by simp
  then show ?thesis
    unfolding distance_def
    by (metis real_sqrt_less_iff)
qed

lemma length_shared_courses:
  "length (shared_courses ucs ccs) = card (set (map course ucs) \<inter> set (map course ccs))"
proof -
  have "set (filter (\<lambda>c. c \<in> set (map course ccs)) (map course ucs))
          = set (map course ucs) \<inter> set (map course ccs)"
    by auto
  then show ?thesis
    unfolding shared_courses_def by (simp only: length_remdups_card_conv)
qed


lemma near_eval:
  "distance (a, b) (c, d) < PROXIMITY_THRESHOLD \<longleftrightarrow>
     (a - c) * (a - c) + (b - d) * (b - d) < 0.00000025"
  by (simp add: distance_near_iff) (simp add: PROXIMITY_THRESHOLD_def power2_eq_square)

lemma shared_count_length:
  "shared_count u c = length (shared_courses (classes u) (classes c))"
  by (simp add: shared_count_def length_shared_courses)

lemma match_score_spec: "match_score n po tp = spec_composite_score n po tp"
  by (simp add: match_score_def spec_composite_score_def)

lemma evaluate_match_char:
  assumes "calculate_time_proximity (classes u) (classes c) = Inr tp"
  shows "evaluate_match u c =
     (if spec_composite_score (shared_count u c)
            (calculate_path_overlap (walking_paths u) (walking_paths c)) tp < 0.3
         \<or> (shared_count u c = 0
             \<and> calculate_path_overlap (walking_paths u) (walking_paths c) < 0.30)
      then Inr None
      else Inr (Some \<lparr>suggested_user_id = user_id c,
             score = spec_composite_score (shared_count u c)
                       (calculate_path_overlap (walking_paths u) (walking_paths c)) tp,
             shared_classes = shared_courses (classes u) (classes c),
             path_overlap_percent =
               calculate_path_overlap (walking_paths u) (walking_paths c) * 100,
             time_proximity_minutes = tp\<rparr>))"
  unfolding evaluate_match_def Let_def assms sum.case match_score_spec MIN_PATH_OVERLAP_def
    shared_count_length
  by (simp only: if_distrib disj_commute split: if_splits) auto


lemma demo_po: "calculate_path_overlap (walking_paths demo_alice) (walking_paths demo_bob) = 1"
  by (simp add: demo_alice_def demo_bob_def calculate_path_overlap_def
      calculate_single_path_overlap_def near_eval)

lemma demo_shared: "shared_count demo_alice demo_bob = 1"
  by (simp add: shared_count_length demo_alice_def demo_bob_def shared_courses_def)




lemma single_class_tp_same_day:
  "calculate_time_proximity (classes (single_class 1 ''CS101'' ''Monday'' ''09:00'' ''10:00'' p))
     (classes (single_class 2 ''ENG202'' ''Monday'' ''10:05'' ''11:00'' q)) = Inr 5"
  by (simp add: single_class_def calculate_time_proximity_def parse_time_def digit_of_def
      TIME_PROXIMITY_THRESHOLD_def py_int_def)

lemma single_class_tp_other_day:
  "calculate_time_proximity (classes (single_class 1 crs ''Monday'' ''09:00'' ''10:00'' p))
     (classes (single_class 2 crs' ''Tuesday'' s e q)) = Inr (- 1)"
  by (simp add: single_class_def calculate_time_proximity_def parse_time_def digit_of_def)

lemma ten_point_po: "calculate_path_overlap [ten_point_path] [[(0, 0)]] = 0.3"
  by (simp add: ten_point_path_def calculate_path_overlap_def calculate_single_path_overlap_def
      near_eval numeral_3_eq_3 eval_nat_numeral)

lemma single_class_shared:
  "shared_count (single_class a x d s e p) (single_class b y d' s' e' q) = (if x = y then 1 else 0)"
  by (simp add: shared_count_length single_class_def shared_courses_def)

lemma three_classes_tp:
  "calculate_time_proximity (classes (three_classes 1)) (classes (three_classes 2)) = Inr (- 1)"
  by (simp add: three_classes_def calculate_time_proximity_def parse_time_def digit_of_def
      TIME_PROXIMITY_THRESHOLD_def py_int_def)

lemma three_classes_shared: "shared_count (three_classes 1) (three_classes 2) = 3"
  by (simp add: shared_count_length three_classes_def shared_courses_def)

text \<open>
  C6. The path overlap that \<open>evaluate_match\<close> computes lies between 0 and 1, so the
  percentage of a suggestion lies between 0 and 100; it is 0 when one of the two schedules
  has no path.
\<close>

theorem path_overlap_in_unit_interval:
  "0 \<le> calculate_path_overlap (walking_paths u) (walking_paths c)
   \<and> calculate_path_overlap (walking_paths u) (walking_paths c) \<le> 1
   \<and> (walking_paths u = [] \<or> walking_paths c = [] \<longrightarrow>
        calculate_path_overlap (walking_paths u) (walking_paths c) = 0)
   \<and> (\<forall>s. evaluate_match u c = Inr (Some s) \<longrightarrow>
        path_overlap_percent s = calculate_path_overlap (walking_paths u) (walking_paths c) * 100
        \<and> 0 \<le> path_overlap_percent s \<and> path_overlap_percent s \<le> 100)"
proof -
  let ?po = "calculate_path_overlap (walking_paths u) (walking_paths c)"
  have r: "0 \<le> ?po" "?po \<le> 1" using path_overlap_range by simp_all
  have e: "walking_paths u = [] \<or> walking_paths c = [] \<longrightarrow> ?po = 0"
    using path_overlap_empty by blast
  have p: "path_overlap_percent s = ?po * 100" if "evaluate_match u c = Inr (Some s)" for s
    using that unfolding evaluate_match_def Let_def
    by (auto split: sum.splits if_splits)
  show ?thesis using r e p by auto
qed

theorem path_overlap_in_unit_interval_witness:
  "(walking_paths (three_classes 1) = [] \<or> walking_paths demo_bob = [])
   \<and> calculate_path_overlap (walking_paths (three_classes 1)) (walking_paths demo_bob) = 0
   \<and> (\<exists>s. evaluate_match demo_alice demo_bob = Inr (Some s) \<and> path_overlap_percent s = 100)"
proof -
  have m: "evaluate_match demo_alice demo_bob =
     Inr (Some \<lparr>suggested_user_id = user_id demo_bob, score = 1,
                 shared_classes = shared_courses (classes demo_alice) (classes demo_bob),
                 path_overlap_percent = 100, time_proximity_minutes = 15\<rparr>)"
    by (simp add: evaluate_match_char [OF demo_tp] demo_po demo_shared spec_composite_score_def)
  have e: "walking_paths (three_classes 1) = []" by (simp add: three_classes_def)
  show ?thesis
    using path_overlap_in_unit_interval [of "three_classes 1" demo_bob]
      path_overlap_in_unit_interval [of demo_alice demo_bob] m e
    by simp
qed

subsection \<open>Suggestion generation\<close>





lemma sort_by_score_desc_length: "length (sort_by_score_desc xs) = length xs"
  by (simp add: sort_by_score_desc_def)








lemmas mem_repo_eval = mem_schedule_repo_def mem_connection_repo_def demo_world_def demo_db_def
  links_stored_def


text \<open>
  C5. When the schedule repository reports no schedule for the user id,
  \<open>generate_suggestions\<close> returns the empty list, not an error, after this one call.
\<close>

theorem generate_suggestions_no_schedule:
  assumes "get_schedule_by_user srepo uid (store w) = (Inr None, db1)"
  shows "generate_suggestions srepo crepo uid limit w =
           (Inr [], \<lparr>store = db1, calls = calls w @ [GetScheduleByUser uid]\<rparr>)"
  using assms by (simp add: generate_suggestions_def invoke_def)

theorem generate_suggestions_no_schedule_witness:
  "get_schedule_by_user mem_schedule_repo 99 (store demo_world) = (Inr None, demo_db)
   \<and> generate_suggestions mem_schedule_repo mem_connection_repo 99 10 demo_world =
       (Inr [], \<lparr>store = demo_db, calls = [GetScheduleByUser 99]\<rparr>)"
proof -
  have s: "get_schedule_by_user mem_schedule_repo 99 (store demo_world) = (Inr None, demo_db)"
    by (simp add: mem_repo_eval demo_alice_def demo_bob_def demo_charlie_def)
  have "calls demo_world = []" by (simp add: demo_world_def)
  then show ?thesis
    using generate_suggestions_no_schedule [OF s, of mem_connection_repo 10] s by simp
qed

subsection \<open>Connection lifecycle\<close>

text \<open>
  C7. \<open>create_connection_request\<close> fails with a conflict when the repository finds a
  connection between the two users, whatever its status, or reports a block in one of the
  two directions; in these cases the call log shows that \<open>create_connection\<close> was not
  called. Otherwise it calls \<open>create_connection\<close> with status pending and the current
  time, and returns what that call returns.
\<close>

theorem create_connection_request_cases:
  "(get_connection_between crepo req tgt (store w) = (Inr (Some existing), db1) \<longrightarrow>
      create_connection_request crepo now req tgt w =
        (Inl (ValueError ''Connection already exists or is pending''),
         \<lparr>store = db1, calls = calls w @ [GetConnectionBetween req tgt]\<rparr>))
   \<and> (get_connection_between crepo req tgt (store w) = (Inr None, db1)
        \<and> is_blocked crepo req tgt db1 = (Inr True, db2) \<longrightarrow>
      create_connection_request crepo now req tgt w =
        (Inl (ValueError ''Cannot connect with blocked user''),
         \<lparr>store = db2, calls = calls w @ [GetConnectionBetween req tgt, IsBlocked req tgt]\<rparr>))
   \<and> (get_connection_between crepo req tgt (store w) = (Inr None, db1)
        \<and> is_blocked crepo req tgt db1 = (Inr False, db2)
        \<and> is_blocked crepo tgt req db2 = (Inr True, db3) \<longrightarrow>
      create_connection_request crepo now req tgt w =
        (Inl (ValueError ''Cannot connect with blocked user''),
         \<lparr>store = db3,
          calls = calls w @ [GetConnectionBetween req tgt, IsBlocked req tgt, IsBlocked tgt req]\<rparr>))
   \<and> (get_connection_between crepo req tgt (store w) = (Inr None, db1)
        \<and> is_blocked crepo req tgt db1 = (Inr False, db2)
        \<and> is_blocked crepo tgt req db2 = (Inr False, db3)
        \<and> create_connection crepo req tgt ''pending'' now db3 = (r, db4) \<longrightarrow>
      create_connection_request crepo now req tgt w =
        (r, \<lparr>store = db4,
             calls = calls w @ [GetConnectionBetween req tgt, IsBlocked req tgt, IsBlocked tgt req,
                       CreateConnection req tgt ''pending'' now]\<rparr>))"
  by (simp add: create_connection_request_def is_blocked_either_def invoke_def)

lemma pending_world_eq:
  "pending_world =
     \<lparr>store = demo_db\<lparr>db_connections :=
          [\<lparr>sc_id = 1, user1_id = 1, user2_id = 2, sc_status = ''pending'', suggested_at = 100\<rparr>]\<rparr>,
      calls = [GetConnectionBetween 1 2, IsBlocked 1 2, IsBlocked 2 1,
               CreateConnection 1 2 ''pending'' 100]\<rparr>"
  by (simp add: pending_world_def create_connection_request_def is_blocked_either_def invoke_def
      mem_repo_eval Let_def)

theorem create_connection_request_cases_witness:
  "fst (get_connection_between mem_connection_repo 2 1 (store pending_world)) =
      Inr (Some \<lparr>sc_id = 1, user1_id = 1, user2_id = 2, sc_status = ''pending'',
                  suggested_at = 100\<rparr>)
   \<and> fst (create_connection_request mem_connection_repo 200 2 1 pending_world) =
        Inl (ValueError ''Connection already exists or is pending'')
   \<and> calls (snd (create_connection_request mem_connection_repo 200 2 1 pending_world)) =
        calls pending_world @ [GetConnectionBetween 2 1]
   \<and> fst (get_connection_between mem_connection_repo 1 2 (store blocked_world)) = Inr None
   \<and> fst (is_blocked mem_connection_repo 1 2 (store blocked_world)) = Inr True
   \<and> create_connection_request mem_connection_repo 200 1 2 blocked_world =
        (Inl (ValueError ''Cannot connect with blocked user''),
         \<lparr>store = store blocked_world, calls = [GetConnectionBetween 1 2, IsBlocked 1 2]\<rparr>)
   \<and> fst (is_blocked mem_connection_repo 2 1 (store blocked_world)) = Inr False
   \<and> create_connection_request mem_connection_repo 200 2 1 blocked_world =
        (Inl (ValueError ''Cannot connect with blocked user''),
         \<lparr>store = store blocked_world,
          calls = [GetConnectionBetween 2 1, IsBlocked 2 1, IsBlocked 1 2]\<rparr>)
   \<and> fst (create_connection_request mem_connection_repo 100 1 2 demo_world) =
        Inr \<lparr>sc_id = 1, user1_id = 1, user2_id = 2, sc_status = ''pending'', suggested_at = 100\<rparr>
   \<and> calls (snd (create_connection_request mem_connection_repo 100 1 2 demo_world)) =
        [GetConnectionBetween 1 2, IsBlocked 1 2, IsBlocked 2 1,
         CreateConnection 1 2 ''pending'' 100]
   \<and> db_connections (store (snd (create_connection_request mem_connection_repo 100 1 2 demo_world))) =
        [\<lparr>sc_id = 1, user1_id = 1, user2_id = 2, sc_status = ''pending'', suggested_at = 100\<rparr>]"
proof -
  let ?c = "\<lparr>sc_id = 1, user1_id = 1, user2_id = 2, sc_status = ''pending'', suggested_at = 100\<rparr>"
  let ?pdb = "store pending_world"
  let ?bdb = "store blocked_world"
  have e: "get_connection_between mem_connection_repo 2 1 ?pdb = (Inr (Some ?c), ?pdb)"
    by (simp add: pending_world_eq mem_repo_eval)
  have b0: "get_connection_between mem_connection_repo 1 2 ?bdb = (Inr None, ?bdb)"
    "get_connection_between mem_connection_repo 2 1 ?bdb = (Inr None, ?bdb)"
    by (simp_all add: blocked_world_def mem_repo_eval)
  have b1: "is_blocked mem_connection_repo 1 2 ?bdb = (Inr True, ?bdb)"
    by (simp add: blocked_world_def mem_repo_eval)
  have b2: "is_blocked mem_connection_repo 2 1 ?bdb = (Inr False, ?bdb)"
    by (simp add: blocked_world_def mem_repo_eval)
  have d0: "get_connection_between mem_connection_repo 1 2 (store demo_world) = (Inr None, demo_db)"
    by (simp add: mem_repo_eval)
  have d1: "is_blocked mem_connection_repo 1 2 demo_db = (Inr False, demo_db)"
    "is_blocked mem_connection_repo 2 1 demo_db = (Inr False, demo_db)"
    by (simp_all add: mem_repo_eval)
  have d2: "create_connection mem_connection_repo 1 2 ''pending'' 100 demo_db =
      (Inr ?c, demo_db\<lparr>db_connections := [?c]\<rparr>)"
    by (simp add: mem_repo_eval Let_def)
  have c1: "create_connection_request mem_connection_repo 200 2 1 pending_world =
        (Inl (ValueError ''Connection already exists or is pending''),
         \<lparr>store = ?pdb, calls = calls pending_world @ [GetConnectionBetween 2 1]\<rparr>)"
    using create_connection_request_cases
      [of mem_connection_repo 2 1 pending_world ?c ?pdb 200] e by blast
  have c2: "create_connection_request mem_connection_repo 200 1 2 blocked_world =
        (Inl (ValueError ''Cannot connect with blocked user''),
         \<lparr>store = ?bdb, calls = calls blocked_world @ [GetConnectionBetween 1 2, IsBlocked 1 2]\<rparr>)"
    using create_connection_request_cases
      [of mem_connection_repo 1 2 blocked_world _ ?bdb 200 ?bdb] b0(1) b1 by blast
  have c3: "create_connection_request mem_connection_repo 200 2 1 blocked_world =
        (Inl (ValueError ''Cannot connect with blocked user''),
         \<lparr>store = ?bdb,
          calls = calls blocked_world @ [GetConnectionBetween 2 1, IsBlocked 2 1, IsBlocked 1 2]\<rparr>)"
    using create_connection_request_cases
      [of mem_connection_repo 2 1 blocked_world _ ?bdb 200 ?bdb ?bdb] b0(2) b1 b2 by blast
  have c4: "create_connection_request mem_connection_repo 100 1 2 demo_world =
        (Inr ?c, \<lparr>store = demo_db\<lparr>db_connections := [?c]\<rparr>,
             calls = calls demo_world @ [GetConnectionBetween 1 2, IsBlocked 1 2, IsBlocked 2 1,
                       CreateConnection 1 2 ''pending'' 100]\<rparr>)"
    using create_connection_request_cases
      [of mem_connection_repo 1 2 demo_world _ demo_db 100 demo_db demo_db "Inr ?c"
          "demo_db\<lparr>db_connections := [?c]\<rparr>"] d0 d1 d2 by blast
  have cb: "calls blocked_world = []" by (simp add: blocked_world_def)
  have cd: "calls demo_world = []" by (simp add: demo_world_def)
  show ?thesis
    by (simp add: c1 c2 c3 c4 e b0 b1 b2 cb cd)
qed

text \<open>
  C8. \<open>accept_connection\<close> gives the connection with the given id as accepted, with the
  current time as its connection timestamp: the record it returns has that id, the status
  accepted and that time, for every accepting user and every store. So nothing is
  verified: not that the user is a party, not that the connection was pending.
\<close>

theorem accept_connection_returns_record:
  "fst (accept_connection connection_id accepting_user_id now w) =
     Inr \<lparr>conn_id = connection_id, status = ''accepted'', connected_at = now\<rparr>
   \<and> store (snd (accept_connection connection_id accepting_user_id now w)) = store w
   \<and> calls (snd (accept_connection connection_id accepting_user_id now w)) = calls w"
  by (simp add: accept_connection_def)

text \<open>
  C10. \<open>accept_connection\<close> calls no repository: store and call log are as before. The id
  and the status of its record are the given id and accepted, for every accepting user.
\<close>

theorem accept_connection_frame:
  "snd (accept_connection connection_id accepting_user_id now w) = w
   \<and> map_sum (\<lambda>e. e) (\<lambda>r. (conn_id r, status r))
        (fst (accept_connection connection_id accepting_user_id now w)) =
      Inr (connection_id, ''accepted'')
   \<and> map_sum (\<lambda>e. e) (\<lambda>r. (conn_id r, status r))
        (fst (accept_connection connection_id accepting_user_id now w)) =
      map_sum (\<lambda>e. e) (\<lambda>r. (conn_id r, status r))
        (fst (accept_connection connection_id other_user now' w'))"
  by (simp add: accept_connection_def)

end
